theory Spec2Isabelle
  imports Main
begin

section \<open>Data model of \<open>scikits/cuda/fft.py\<close>\<close>

text \<open>
  The numeric type tags a caller can hand to \<open>Plan\<close>. The four documented ones are
  \<open>numpy.float32\<close>, \<open>numpy.float64\<close>, \<open>numpy.complex64\<close> and \<open>numpy.complex128\<close>; the
  remaining members of numpy's float and complex families and a catch-all for every other
  numpy type are kept, because Python accepts any of them as an argument.
\<close>

datatype dtype =
    Float16 | Float32 | Float64 | Float128
  | Complex64 | Complex128 | Complex256
  | OtherDtype string

text \<open>
  numpy's registry \<open>np.sctypes\<close>, read by \<open>_fft\<close> at the keys \<open>'complex'\<close> and
  \<open>'float'\<close>.
\<close>

definition sctypes_complex :: "dtype list" where
  "sctypes_complex = [Complex64, Complex128, Complex256]"

definition sctypes_float :: "dtype list" where
  "sctypes_float = [Float16, Float32, Float64, Float128]"

text \<open>
  Modelled from the spec: the module \<open>cufft\<close> imported by \<open>fft.py\<close> is not part of the
  source at hand. Its transform-kind tags \<open>cufft.CUFFT_R2C\<close> ... \<open>cufft.CUFFT_Z2Z\<close> are
  the spec's enumerated \<open>TransformKind\<close>, its execution functions
  \<open>cufft.cufftExecR2C\<close> ... \<open>cufft.cufftExecZ2Z\<close> are the spec's execution primitives,
  and \<open>cufft.CUFFT_FORWARD\<close>, \<open>cufft.CUFFT_INVERSE\<close> are the spec's enumerated
  \<open>Direction\<close>.
\<close>

datatype fft_type = CUFFT_R2C | CUFFT_C2R | CUFFT_C2C | CUFFT_D2Z | CUFFT_Z2D | CUFFT_Z2Z

datatype fft_func =
    cufftExecR2C | cufftExecC2R | cufftExecC2C
  | cufftExecD2Z | cufftExecZ2D | cufftExecZ2Z

datatype direction = CUFFT_FORWARD | CUFFT_INVERSE

text \<open>
  Modelled from the spec: the calls into the absent \<open>cufft\<close> module. Plan creation has
  one procedure per rank, taking the dimensions in the order given and the kind tag
  (\<open>cufftPlan1d\<close> also takes the batch count), and returns a handle or fails.
\<close>

datatype plan_call =
    cufftPlan1d int fft_type int
  | cufftPlan2d int int fft_type
  | cufftPlan3d int int int fft_type

text \<open>
  An invocation of an execution primitive: the primitive, the plan handle, the input and
  output device pointers, and the direction flag when the call passes one.
\<close>

datatype exec_call = ExecCall fft_func nat nat nat "direction option"

text \<open>
  Every \<open>raise\<close> of the module, under the spec's name for it:
  \<^item> \<open>ValueError('unsupported input/output type combination')\<close>;
  \<^item> \<open>ValueError('transforms of dimension > 3 not yet supported')\<close>;
  \<^item> the failure of the engine's plan-creation call;
  \<^item> \<open>ValueError('can only compute in-place transform of complex data')\<close>;
  \<^item> \<open>ValueError('cannot compute forward complex -> real transform')\<close> and
    \<open>ValueError('cannot compute inverse real -> complex transform')\<close>.
\<close>

datatype error =
    UnsupportedTypeCombination
  | UnsupportedRank
  | PlanAllocationFailed
  | IllegalInPlaceTransform
  | IllegalDirectionForKind

text \<open>The argument \<open>shape\<close> of \<open>Plan\<close>: a bare scalar or a tuple of integers.\<close>

datatype shape_arg = Scalar int | Tuple "int list"

text \<open>The attributes of a \<open>Plan\<close> object.\<close>

record plan =
  shape :: "int list"
  in_dtype :: dtype
  out_dtype :: dtype
  fft_type :: fft_type
  fft_func :: fft_func
  handle :: nat

section \<open>Plan construction\<close>

text \<open>Lines 37-40: \<open>np.isscalar(shape)\<close> wraps a scalar into a 1-tuple.\<close>

fun shape_tuple :: "shape_arg \<Rightarrow> int list" where
  "shape_tuple (Scalar n) = [n]"
| "shape_tuple (Tuple ns) = ns"

text \<open>Lines 45-65: the \<open>if\<close>/\<open>elif\<close> chain that determines the type of transformation.\<close>

definition determine_type :: "dtype \<Rightarrow> dtype \<Rightarrow> error + (fft_type \<times> fft_func)" where
  "determine_type i out =
     (if i = Float32 \<and> out = Complex64 then Inr (CUFFT_R2C, cufftExecR2C)
      else if i = Complex64 \<and> out = Float32 then Inr (CUFFT_C2R, cufftExecC2R)
      else if i = Complex64 \<and> out = Complex64 then Inr (CUFFT_C2C, cufftExecC2C)
      else if i = Float64 \<and> out = Complex128 then Inr (CUFFT_D2Z, cufftExecD2Z)
      else if i = Complex128 \<and> out = Float64 then Inr (CUFFT_Z2D, cufftExecZ2D)
      else if i = Complex128 \<and> out = Complex128 then Inr (CUFFT_Z2Z, cufftExecZ2Z)
      else Inl UnsupportedTypeCombination)"

text \<open>
  A plan-creation call on the engine, which is a parameter: \<open>None\<close> is the engine
  rejecting the request, which the \<open>cufft\<close> wrapper turns into an exception.
\<close>

definition request :: "(plan_call \<Rightarrow> nat option) \<Rightarrow> plan_call \<Rightarrow> error + nat" where
  "request engine c = (case engine c of None \<Rightarrow> Inl PlanAllocationFailed | Some h \<Rightarrow> Inr h)"

text \<open>Lines 67-78: the rank-specific set-up of the plan handle.\<close>

definition set_up_plan :: "(plan_call \<Rightarrow> nat option) \<Rightarrow> int list \<Rightarrow> fft_type \<Rightarrow> error + nat" where
  "set_up_plan engine shp ft =
     (if length shp = 1 then request engine (cufftPlan1d (shp ! 0) ft 1)
      else if length shp = 2 then request engine (cufftPlan2d (shp ! 0) (shp ! 1) ft)
      else if length shp = 3 then request engine (cufftPlan3d (shp ! 0) (shp ! 1) (shp ! 2) ft)
      else Inl UnsupportedRank)"

text \<open>\<open>Plan.__init__\<close>: the dtype pair is examined first, the rank second.\<close>

definition Plan_init ::
  "(plan_call \<Rightarrow> nat option) \<Rightarrow> shape_arg \<Rightarrow> dtype \<Rightarrow> dtype \<Rightarrow> error + plan" where
  "Plan_init engine shape_in i out =
     (case determine_type i out of
        Inl e \<Rightarrow> Inl e
      | Inr (ft, ff) \<Rightarrow>
          (case set_up_plan engine (shape_tuple shape_in) ft of
             Inl e \<Rightarrow> Inl e
           | Inr h \<Rightarrow>
               Inr \<lparr>shape = shape_tuple shape_in, in_dtype = i, out_dtype = out,
                    fft_type = ft, fft_func = ff, handle = h\<rparr>))"

text \<open>
  The dispatch table in the words of the spec: the six supported pairs, each with its
  transform kind and execution primitive.
\<close>

definition dispatch_table :: "(dtype \<times> dtype \<times> fft_type \<times> fft_func) list" where
  "dispatch_table =
     [(Float32, Complex64, CUFFT_R2C, cufftExecR2C),
      (Complex64, Float32, CUFFT_C2R, cufftExecC2R),
      (Complex64, Complex64, CUFFT_C2C, cufftExecC2C),
      (Float64, Complex128, CUFFT_D2Z, cufftExecD2Z),
      (Complex128, Float64, CUFFT_Z2D, cufftExecZ2D),
      (Complex128, Complex128, CUFFT_Z2Z, cufftExecZ2Z)]"

definition supported_pair :: "dtype \<Rightarrow> dtype \<Rightarrow> bool" where
  "supported_pair i out = ((i, out) \<in> set (map (\<lambda>(a, b, k, f). (a, b)) dispatch_table))"

section \<open>Device arrays and the device\<close>

text \<open>
  The attributes of a \<open>pycuda.gpuarray.GPUArray\<close> that the module reads: the device
  pointer \<open>gpudata\<close>, the element count \<open>size\<close> and the element type \<open>dtype\<close>.
\<close>

record gpuarray =
  gpudata :: nat
  size_attr :: nat
  dtype :: dtype

text \<open>
  The device: the buffer stored at each device address, the next address the allocator
  hands out, the execution primitives invoked so far, oldest first, and the plan handles
  that have been destroyed, oldest first.
\<close>

record 'v device =
  mem :: "nat \<Rightarrow> 'v list"
  next_ptr :: nat
  calls :: "exec_call list"
  released :: "nat list"

text \<open>
  The collaborators of \<open>_fft\<close>, taken as parameters.

  Modelled from the spec: an execution primitive of the absent \<open>cufft\<close> module takes a
  handle and the device pointers (plus a direction flag only for the complex-to-complex
  kind), rewrites device memory and raises nothing. \<open>np_cast\<close> is numpy's
  \<open>np.cast[dtype](scale)\<close>.

  Modelled from the spec: \<open>gpu_div\<close> is the division of a device array by a scalar,
  which the device-memory layer provides (the operator \<open>/\<close> of \<open>GPUArray\<close>, not part of
  the source at hand). It performs an elementwise divide-by-scalar on device memory and
  returns a handle pointing at possibly the same memory: from the operand, the divisor,
  the device memory and the allocator's next address it gives the array it returns, the
  device memory and the allocator's next address. Nothing more is assumed of it.
\<close>

record 'v env =
  cufft_exec :: "exec_call \<Rightarrow> (nat \<Rightarrow> 'v list) \<Rightarrow> (nat \<Rightarrow> 'v list)"
  np_cast :: "dtype \<Rightarrow> int \<Rightarrow> 'v"
  gpu_div :: "gpuarray \<Rightarrow> 'v \<Rightarrow> (nat \<Rightarrow> 'v list) \<Rightarrow> nat \<Rightarrow> gpuarray \<times> (nat \<Rightarrow> 'v list) \<times> nat"

text \<open>Invoking an execution primitive: device memory is rewritten and the call recorded.\<close>

definition invoke :: "'v env \<Rightarrow> exec_call \<Rightarrow> 'v device \<Rightarrow> 'v device" where
  "invoke e c dev = dev\<lparr>mem := cufft_exec e c (mem dev), calls := calls dev @ [c]\<rparr>"

text \<open>
  The expression \<open>y_gpu / c\<close>, evaluated on the device by the division of the
  device-memory layer: it yields an array and leaves the memory and the allocator as that
  division gives them. It is no call of an execution primitive and destroys no handle.
\<close>

definition gpuarray_div ::
  "'v env \<Rightarrow> gpuarray \<Rightarrow> 'v \<Rightarrow> 'v device \<Rightarrow> gpuarray \<times> 'v device" where
  "gpuarray_div e a c dev =
     (fst (gpu_div e a c (mem dev) (next_ptr dev)),
      dev\<lparr>mem := fst (snd (gpu_div e a c (mem dev) (next_ptr dev))),
          next_ptr := snd (snd (gpu_div e a c (mem dev) (next_ptr dev)))\<rparr>)"

section \<open>Disposal of a plan\<close>

text \<open>
  \<open>Plan.__del__\<close>, lines 80-81: \<open>cufft.cufftDestroy(self.handle)\<close>.

  Modelled from the spec: the handle-destruction call of the absent \<open>cufft\<close> module
  releases the engine handle, which the device records. The finalizer assigns no
  attribute, so the plan object is returned as it was, its \<open>handle\<close> included.
\<close>

definition Plan_del :: "plan \<Rightarrow> 'v device \<Rightarrow> plan \<times> 'v device" where
  "Plan_del p dev = (p, dev\<lparr>released := released dev @ [handle p]\<rparr>)"

text \<open>The plan handle that a call of an execution primitive passes to the engine.\<close>

fun call_handle :: "exec_call \<Rightarrow> nat" where
  "call_handle (ExecCall f h i out d) = h"

section \<open>Transform execution\<close>

text \<open>
  The three validation conditions of \<open>_fft\<close>, lines 109-121, each as the source writes
  it.
\<close>

definition in_place_violation :: "gpuarray \<Rightarrow> gpuarray \<Rightarrow> plan \<Rightarrow> bool" where
  "in_place_violation x_gpu y_gpu p =
     (gpudata x_gpu = gpudata y_gpu \<and> fft_type p \<notin> set [CUFFT_C2C, CUFFT_Z2Z])"

definition forward_violation :: "plan \<Rightarrow> direction \<Rightarrow> bool" where
  "forward_violation p d =
     (d = CUFFT_FORWARD \<and> in_dtype p \<in> set sctypes_complex \<and> out_dtype p \<in> set sctypes_float)"

definition inverse_violation :: "plan \<Rightarrow> direction \<Rightarrow> bool" where
  "inverse_violation p d =
     (d = CUFFT_INVERSE \<and> in_dtype p \<in> set sctypes_float \<and> out_dtype p \<in> set sctypes_complex)"

text \<open>Lines 123-128: the primitive is called with the direction only for C2C and Z2Z.\<close>

definition the_call :: "gpuarray \<Rightarrow> gpuarray \<Rightarrow> plan \<Rightarrow> direction \<Rightarrow> exec_call" where
  "the_call x_gpu y_gpu p d =
     (if fft_type p \<in> set [CUFFT_C2C, CUFFT_Z2Z]
      then ExecCall (fft_func p) (handle p) (gpudata x_gpu) (gpudata y_gpu) (Some d)
      else ExecCall (fft_func p) (handle p) (gpudata x_gpu) (gpudata y_gpu) None)"

text \<open>
  Lines 130-132: \<open>y_gpu.gpudata = (y_gpu/np.cast[y_gpu.dtype](scale)).gpudata\<close> when
  \<open>scale != None\<close>.
\<close>

definition rescale ::
  "'v env \<Rightarrow> gpuarray \<Rightarrow> int option \<Rightarrow> 'v device \<Rightarrow> gpuarray \<times> 'v device" where
  "rescale e y_gpu scale dev =
     (case scale of
        None \<Rightarrow> (y_gpu, dev)
      | Some s \<Rightarrow>
          (y_gpu\<lparr>gpudata := gpudata (fst (gpuarray_div e y_gpu (np_cast e (dtype y_gpu) s) dev))\<rparr>,
           snd (gpuarray_div e y_gpu (np_cast e (dtype y_gpu) s) dev)))"

text \<open>
  The function \<open>_fft\<close>. The result is the exception raised, if any, with the output array
  object and the device as the call leaves them.
\<close>

definition fft_exec ::
  "'v env \<Rightarrow> gpuarray \<Rightarrow> gpuarray \<Rightarrow> plan \<Rightarrow> direction \<Rightarrow> int option \<Rightarrow> 'v device
     \<Rightarrow> error option \<times> gpuarray \<times> 'v device" where
  "fft_exec e x_gpu y_gpu p d scale dev =
     (if in_place_violation x_gpu y_gpu p then (Some IllegalInPlaceTransform, y_gpu, dev)
      else if forward_violation p d then (Some IllegalDirectionForKind, y_gpu, dev)
      else if inverse_violation p d then (Some IllegalDirectionForKind, y_gpu, dev)
      else (None, rescale e y_gpu scale (invoke e (the_call x_gpu y_gpu p d) dev)))"

text \<open>The entry point \<open>fft\<close>, lines 180-183.\<close>

definition fft ::
  "'v env \<Rightarrow> gpuarray \<Rightarrow> gpuarray \<Rightarrow> plan \<Rightarrow> bool \<Rightarrow> 'v device
     \<Rightarrow> error option \<times> gpuarray \<times> 'v device" where
  "fft e x_gpu y_gpu p scale dev =
     (if scale then fft_exec e x_gpu y_gpu p CUFFT_FORWARD (Some (int (size_attr x_gpu))) dev
      else fft_exec e x_gpu y_gpu p CUFFT_FORWARD None dev)"

text \<open>The entry point \<open>ifft\<close>, lines 227-230.\<close>

definition ifft ::
  "'v env \<Rightarrow> gpuarray \<Rightarrow> gpuarray \<Rightarrow> plan \<Rightarrow> bool \<Rightarrow> 'v device
     \<Rightarrow> error option \<times> gpuarray \<times> 'v device" where
  "ifft e x_gpu y_gpu p scale dev =
     (if scale then fft_exec e x_gpu y_gpu p CUFFT_INVERSE (Some (int (size_attr y_gpu))) dev
      else fft_exec e x_gpu y_gpu p CUFFT_INVERSE None dev)"

section \<open>Concrete inputs\<close>

text \<open>An engine that accepts every plan request and hands out handle 7.\<close>

definition engine0 :: "plan_call \<Rightarrow> nat option" where
  "engine0 c = Some 7"

text \<open>The plans \<open>Plan(4, float32, complex64)\<close>, \<open>Plan(4, complex64, float32)\<close> and
  \<open>Plan(4, complex64, complex64)\<close> as the constructor builds them on that engine.\<close>

definition plan_r2c :: plan where
  "plan_r2c = \<lparr>shape = [4], in_dtype = Float32, out_dtype = Complex64,
               fft_type = CUFFT_R2C, fft_func = cufftExecR2C, handle = 7\<rparr>"

definition plan_c2r :: plan where
  "plan_c2r = \<lparr>shape = [4], in_dtype = Complex64, out_dtype = Float32,
               fft_type = CUFFT_C2R, fft_func = cufftExecC2R, handle = 7\<rparr>"

definition plan_c2c :: plan where
  "plan_c2c = \<lparr>shape = [4], in_dtype = Complex64, out_dtype = Complex64,
               fft_type = CUFFT_C2C, fft_func = cufftExecC2C, handle = 7\<rparr>"

text \<open>
  Two divisions of a device array of integers by a scalar. The first is a binary operator
  that leaves its operand alone: it stores the quotients in a newly allocated buffer and
  returns an array on that buffer. The second overwrites the operand's buffer with the
  quotients and returns the operand.
\<close>

definition alloc_div ::
  "gpuarray \<Rightarrow> int \<Rightarrow> (nat \<Rightarrow> int list) \<Rightarrow> nat \<Rightarrow> gpuarray \<times> (nat \<Rightarrow> int list) \<times> nat" where
  "alloc_div a c m n = (a\<lparr>gpudata := n\<rparr>, m(n := map (\<lambda>v. v div c) (m (gpudata a))), n + 1)"

definition inplace_div ::
  "gpuarray \<Rightarrow> int \<Rightarrow> (nat \<Rightarrow> int list) \<Rightarrow> nat \<Rightarrow> gpuarray \<times> (nat \<Rightarrow> int list) \<times> nat" where
  "inplace_div a c m n = (a, m(gpudata a := map (\<lambda>v. v div c) (m (gpudata a))), n)"

text \<open>
  Collaborators over integer elements: the primitive stores \<open>[8, 4, 6]\<close> at the output
  pointer of the call and the cast is the identity; \<open>env0\<close> divides into a new buffer,
  \<open>env1\<close> divides in place.
\<close>

fun out_ptr :: "exec_call \<Rightarrow> nat" where
  "out_ptr (ExecCall f h i out d) = out"

definition env0 :: "int env" where
  "env0 = \<lparr>cufft_exec = (\<lambda>c m. m(out_ptr c := [8, 4, 6])),
           np_cast = (\<lambda>t s. s),
           gpu_div = alloc_div\<rparr>"

definition env1 :: "int env" where
  "env1 = \<lparr>cufft_exec = (\<lambda>c m. m(out_ptr c := [8, 4, 6])),
           np_cast = (\<lambda>t s. s),
           gpu_div = inplace_div\<rparr>"

text \<open>
  A device with two buffers, at the addresses 0 and 1, no call made and no handle
  destroyed yet.
\<close>

definition dev0 :: "int device" where
  "dev0 = \<lparr>mem = (\<lambda>a. if a = 0 then [1, 2, 3, 4] else if a = 1 then [0, 0, 0] else []),
           next_ptr = 2, calls = [], released = []\<rparr>"

definition x0 :: gpuarray where
  "x0 = \<lparr>gpudata = 0, size_attr = 4, dtype = Float32\<rparr>"

definition y0 :: gpuarray where
  "y0 = \<lparr>gpudata = 1, size_attr = 3, dtype = Complex64\<rparr>"

text \<open>
  Arrays that alias: a complex input and a real output that both sit at address 1, and a
  complex array at address 0 used as input and output of an in-place transform.
\<close>

definition r_alias :: gpuarray where
  "r_alias = \<lparr>gpudata = 1, size_attr = 4, dtype = Float32\<rparr>"

definition c_alias :: gpuarray where
  "c_alias = \<lparr>gpudata = 0, size_attr = 4, dtype = Complex64\<rparr>"

section \<open>Plan construction: the dispatch table\<close>

lemma determine_type_table:
  "(i, out, k, f) \<in> set dispatch_table \<Longrightarrow> determine_type i out = Inr (k, f)"
  by (auto simp: dispatch_table_def determine_type_def)

lemma determine_type_unsupported:
  "\<not> supported_pair i out \<Longrightarrow> determine_type i out = Inl UnsupportedTypeCombination"
  by (auto simp: supported_pair_def dispatch_table_def determine_type_def)

lemma request_accepts: "engine c \<noteq> None \<Longrightarrow> \<exists>h. request engine c = Inr h"
  by (cases "engine c") (simp_all add: request_def)

lemma set_up_plan_accepts:
  assumes "length shp \<in> {1, 2, 3}" and "\<forall>c. engine c \<noteq> None"
  shows "\<exists>h. set_up_plan engine shp ft = Inr h"
proof -
  have "\<And>c. \<exists>h. request engine c = Inr h"
    using assms(2) by (simp add: request_accepts)
  with assms(1) show ?thesis
    unfolding set_up_plan_def by auto
qed

text \<open>
  Claim C1. For a dtype pair of the six-entry dispatch table, \<open>Plan.__init__\<close> never
  raises the unsupported-type error, every plan it returns carries the kind and the
  execution primitive of the pair's table entry, and with a shape of one to three
  dimensions on an engine that accepts the request a plan is returned. For a pair outside
  the table, construction fails with \<open>UnsupportedTypeCombination\<close>, whatever the shape.
\<close>

theorem plan_dispatch_table:
  "((i, out, k, f) \<in> set dispatch_table \<longrightarrow>
      Plan_init engine sh i out \<noteq> Inl UnsupportedTypeCombination \<and>
      (\<forall>p. Plan_init engine sh i out = Inr p \<longrightarrow> fft_type p = k \<and> fft_func p = f) \<and>
      (length (shape_tuple sh) \<in> {1, 2, 3} \<and> (\<forall>c. engine c \<noteq> None) \<longrightarrow>
         (\<exists>p. Plan_init engine sh i out = Inr p))) \<and>
   (\<not> supported_pair i out \<longrightarrow> Plan_init engine sh i out = Inl UnsupportedTypeCombination)"
proof (intro conjI impI)
  assume t: "(i, out, k, f) \<in> set dispatch_table"
  note dt = determine_type_table [OF t]
  show "Plan_init engine sh i out \<noteq> Inl UnsupportedTypeCombination"
    by (auto simp: Plan_init_def dt set_up_plan_def request_def split: sum.splits option.splits)
  show "\<forall>p. Plan_init engine sh i out = Inr p \<longrightarrow> fft_type p = k \<and> fft_func p = f"
    by (auto simp: Plan_init_def dt split: sum.splits)
  assume "length (shape_tuple sh) \<in> {1, 2, 3} \<and> (\<forall>c. engine c \<noteq> None)"
  then obtain h where "set_up_plan engine (shape_tuple sh) k = Inr h"
    using set_up_plan_accepts [of "shape_tuple sh" engine k] by blast
  then show "\<exists>p. Plan_init engine sh i out = Inr p"
    by (simp add: Plan_init_def dt)
next
  assume "\<not> supported_pair i out"
  then show "Plan_init engine sh i out = Inl UnsupportedTypeCombination"
    by (simp add: Plan_init_def determine_type_unsupported)
qed

theorem plan_dispatch_table_witness:
  "(Float32, Complex64, CUFFT_R2C, cufftExecR2C) \<in> set dispatch_table \<and>
   length (shape_tuple (Tuple [128, 64])) \<in> {1, 2, 3} \<and> (\<forall>c. engine0 c \<noteq> None) \<and>
   Plan_init engine0 (Tuple [128, 64]) Float32 Complex64 =
     Inr \<lparr>shape = [128, 64], in_dtype = Float32, out_dtype = Complex64,
          fft_type = CUFFT_R2C, fft_func = cufftExecR2C, handle = 7\<rparr> \<and>
   \<not> supported_pair Float32 Float64 \<and>
   Plan_init engine0 (Tuple [128, 64]) Float32 Float64 = Inl UnsupportedTypeCombination"
  using plan_dispatch_table [of Float32 Complex64 CUFFT_R2C cufftExecR2C engine0 "Tuple [128, 64]"]
    plan_dispatch_table [of Float32 Float64 CUFFT_R2C cufftExecR2C engine0 "Tuple [128, 64]"]
  by (simp add: dispatch_table_def supported_pair_def engine0_def Plan_init_def
      determine_type_def set_up_plan_def request_def)

section \<open>Plan construction: rank and scalar shapes\<close>

lemma set_up_plan_bad_rank:
  "length shp = 0 \<or> 4 \<le> length shp \<Longrightarrow> set_up_plan engine shp ft = Inl UnsupportedRank"
  by (auto simp: set_up_plan_def)

lemma supported_pair_determined:
  "supported_pair i out \<Longrightarrow> \<exists>k f. determine_type i out = Inr (k, f)"
  by (auto simp: supported_pair_def dispatch_table_def determine_type_def)

text \<open>
  Claim C7, as the code has it. The dtype pair is examined before the rank: for a shape of
  length 0 or of length 4 or more, construction fails with \<open>UnsupportedRank\<close> when the
  dtype pair is one of the six supported ones, and with \<open>UnsupportedTypeCombination\<close>
  when it is not.
\<close>

theorem plan_bad_rank:
  "length (shape_tuple sh) = 0 \<or> 4 \<le> length (shape_tuple sh) \<Longrightarrow>
   Plan_init engine sh i out =
     (if supported_pair i out then Inl UnsupportedRank else Inl UnsupportedTypeCombination)"
proof (cases "supported_pair i out")
  case True
  assume r: "length (shape_tuple sh) = 0 \<or> 4 \<le> length (shape_tuple sh)"
  from True obtain k f where "determine_type i out = Inr (k, f)"
    using supported_pair_determined by blast
  with True show ?thesis
    by (simp add: Plan_init_def set_up_plan_bad_rank [OF r])
next
  case False
  then show ?thesis
    by (simp add: Plan_init_def determine_type_unsupported)
qed

theorem plan_bad_rank_witness:
  "(length (shape_tuple (Tuple [2, 3, 4, 5])) = 0 \<or> 4 \<le> length (shape_tuple (Tuple [2, 3, 4, 5]))) \<and>
   supported_pair Complex64 Complex64 \<and>
   Plan_init engine0 (Tuple [2, 3, 4, 5]) Complex64 Complex64 = Inl UnsupportedRank"
  using plan_bad_rank [of "Tuple [2, 3, 4, 5]" engine0 Complex64 Complex64]
  by (simp add: supported_pair_def dispatch_table_def)

text \<open>
  The claim as the spec states it fails: the empty shape with the unsupported pair
  (float32, float32) does not raise \<open>UnsupportedRank\<close>.
\<close>

theorem plan_bad_rank_counterexample:
  "length (shape_tuple (Tuple [])) = 0 \<and>
   Plan_init engine0 (Tuple []) Float32 Float32 = Inl UnsupportedTypeCombination \<and>
   Plan_init engine0 (Tuple []) Float32 Float32 \<noteq> Inl UnsupportedRank"
  by (simp add: Plan_init_def determine_type_def)

text \<open>
  Claim C10. A bare scalar \<open>n\<close> as shape gives the result of the 1-tuple \<open>(n,)\<close>: the plan
  stores the shape \<open>(n,)\<close>, and its handle is what the engine returns to
  \<open>cufftPlan1d(n, kind, 1)\<close>; when the engine rejects that call, construction fails.
\<close>

theorem plan_scalar_shape:
  "Plan_init engine (Scalar n) i out = Plan_init engine (Tuple [n]) i out \<and>
   (\<forall>p. Plan_init engine (Scalar n) i out = Inr p \<longrightarrow>
      shape p = [n] \<and> engine (cufftPlan1d n (fft_type p) 1) = Some (handle p)) \<and>
   (\<forall>k f. determine_type i out = Inr (k, f) \<and> engine (cufftPlan1d n k 1) = None \<longrightarrow>
      Plan_init engine (Scalar n) i out = Inl PlanAllocationFailed)"
  by (auto simp: Plan_init_def set_up_plan_def request_def split: sum.splits option.splits)

theorem plan_scalar_shape_witness:
  "Plan_init engine0 (Scalar 128) Complex64 Float32 = Plan_init engine0 (Tuple [128]) Complex64 Float32 \<and>
   Plan_init engine0 (Scalar 128) Complex64 Float32 =
     Inr \<lparr>shape = [128], in_dtype = Complex64, out_dtype = Float32,
          fft_type = CUFFT_C2R, fft_func = cufftExecC2R, handle = 7\<rparr> \<and>
   engine0 (cufftPlan1d 128 CUFFT_C2R 1) = Some 7 \<and>
   determine_type Complex64 Float32 = Inr (CUFFT_C2R, cufftExecC2R) \<and>
   (\<lambda>c. None) (cufftPlan1d 128 CUFFT_C2R 1) = (None :: nat option) \<and>
   Plan_init (\<lambda>c. None) (Scalar 128) Complex64 Float32 = Inl PlanAllocationFailed"
  using plan_scalar_shape [of engine0 128 Complex64 Float32]
    plan_scalar_shape [of "\<lambda>c. None" 128 Complex64 Float32]
  by (simp add: Plan_init_def determine_type_def set_up_plan_def request_def engine0_def)

section \<open>Transform execution: validation\<close>

lemma fft_exec_in_place:
  "in_place_violation x_gpu y_gpu p \<Longrightarrow>
   fft_exec e x_gpu y_gpu p d scale dev = (Some IllegalInPlaceTransform, y_gpu, dev)"
  by (simp add: fft_exec_def)

lemma fft_exec_forward:
  "\<not> in_place_violation x_gpu y_gpu p \<Longrightarrow> forward_violation p d \<Longrightarrow>
   fft_exec e x_gpu y_gpu p d scale dev = (Some IllegalDirectionForKind, y_gpu, dev)"
  by (simp add: fft_exec_def)

lemma fft_exec_inverse:
  "\<not> in_place_violation x_gpu y_gpu p \<Longrightarrow> inverse_violation p d \<Longrightarrow>
   fft_exec e x_gpu y_gpu p d scale dev = (Some IllegalDirectionForKind, y_gpu, dev)"
  by (simp add: fft_exec_def)

lemma fft_exec_valid:
  "\<not> in_place_violation x_gpu y_gpu p \<Longrightarrow> \<not> forward_violation p d \<Longrightarrow>
   \<not> inverse_violation p d \<Longrightarrow>
   fft_exec e x_gpu y_gpu p d scale dev =
     (None, rescale e y_gpu scale (invoke e (the_call x_gpu y_gpu p d) dev))"
  by (simp add: fft_exec_def)

lemma rescale_calls: "calls (snd (rescale e y_gpu scale dev)) = calls dev"
  by (cases scale) (simp_all add: rescale_def gpuarray_div_def)

lemma invoke_calls: "calls (invoke e c dev) = calls dev @ [c]"
  by (simp add: invoke_def)

text \<open>A plan that the constructor returned has one of the six dtype pairs and its kind.\<close>

lemma Plan_init_kinds:
  assumes "Plan_init engine sh i out = Inr p"
  shows "(in_dtype p, out_dtype p, fft_type p, fft_func p) \<in> set dispatch_table"
proof -
  from assms obtain k f h where dt: "determine_type i out = Inr (k, f)"
    and p: "p = \<lparr>shape = shape_tuple sh, in_dtype = i, out_dtype = out,
                 fft_type = k, fft_func = f, handle = h\<rparr>"
    by (auto simp: Plan_init_def split: sum.splits)
  from dt have "(i, out, k, f) \<in> set dispatch_table"
    by (auto simp: determine_type_def dispatch_table_def split: if_splits)
  with p show ?thesis by simp
qed

lemma complex_plan_no_direction_violation:
  assumes "(in_dtype p, out_dtype p, fft_type p, fft_func p) \<in> set dispatch_table"
    and "fft_type p \<in> {CUFFT_C2C, CUFFT_Z2Z}"
  shows "\<not> forward_violation p d \<and> \<not> inverse_violation p d"
  using assms
  by (auto simp: dispatch_table_def forward_violation_def inverse_violation_def
      sctypes_complex_def sctypes_float_def)

text \<open>
  Claim C2. With equal input and output device pointers, \<open>_fft\<close> raises the in-place
  error when the plan's kind is neither C2C nor Z2Z. When the kind is C2C or Z2Z the
  in-place error is not raised, and for a plan built by the constructor the call returns
  normally after invoking the plan's primitive on the shared pointer with the direction.
\<close>

theorem in_place_restriction:
  "(gpudata x_gpu = gpudata y_gpu \<and> fft_type p \<notin> {CUFFT_C2C, CUFFT_Z2Z} \<longrightarrow>
      fst (fft_exec e x_gpu y_gpu p d scale dev) = Some IllegalInPlaceTransform) \<and>
   (gpudata x_gpu = gpudata y_gpu \<and> fft_type p \<in> {CUFFT_C2C, CUFFT_Z2Z} \<longrightarrow>
      fst (fft_exec e x_gpu y_gpu p d scale dev) \<noteq> Some IllegalInPlaceTransform \<and>
      (Plan_init engine sh i out = Inr p \<longrightarrow>
         fst (fft_exec e x_gpu y_gpu p d scale dev) = None \<and>
         calls (snd (snd (fft_exec e x_gpu y_gpu p d scale dev))) =
           calls dev @ [ExecCall (fft_func p) (handle p) (gpudata x_gpu) (gpudata y_gpu) (Some d)]))"
proof (intro conjI impI)
  assume "gpudata x_gpu = gpudata y_gpu \<and> fft_type p \<notin> {CUFFT_C2C, CUFFT_Z2Z}"
  then have "in_place_violation x_gpu y_gpu p"
    by (simp add: in_place_violation_def)
  then show "fst (fft_exec e x_gpu y_gpu p d scale dev) = Some IllegalInPlaceTransform"
    by (simp add: fft_exec_in_place)
next
  assume a: "gpudata x_gpu = gpudata y_gpu \<and> fft_type p \<in> {CUFFT_C2C, CUFFT_Z2Z}"
  then have n: "\<not> in_place_violation x_gpu y_gpu p"
    by (auto simp: in_place_violation_def)
  then show "fst (fft_exec e x_gpu y_gpu p d scale dev) \<noteq> Some IllegalInPlaceTransform"
    by (simp add: fft_exec_def)
  assume "Plan_init engine sh i out = Inr p"
  then have "(in_dtype p, out_dtype p, fft_type p, fft_func p) \<in> set dispatch_table"
    by (rule Plan_init_kinds)
  with a have v: "\<not> forward_violation p d \<and> \<not> inverse_violation p d"
    using complex_plan_no_direction_violation by blast
  have c: "the_call x_gpu y_gpu p d =
      ExecCall (fft_func p) (handle p) (gpudata x_gpu) (gpudata y_gpu) (Some d)"
    using a by (auto simp: the_call_def)
  from n v have r: "fft_exec e x_gpu y_gpu p d scale dev =
      (None, rescale e y_gpu scale (invoke e (the_call x_gpu y_gpu p d) dev))"
    by (simp add: fft_exec_valid)
  show "fst (fft_exec e x_gpu y_gpu p d scale dev) = None"
    by (simp add: r)
  show "calls (snd (snd (fft_exec e x_gpu y_gpu p d scale dev))) =
      calls dev @ [ExecCall (fft_func p) (handle p) (gpudata x_gpu) (gpudata y_gpu) (Some d)]"
    by (simp add: r rescale_calls invoke_calls c)
qed

theorem in_place_restriction_witness:
  "gpudata x0 = gpudata c_alias \<and> fft_type plan_r2c \<notin> {CUFFT_C2C, CUFFT_Z2Z} \<and>
   fst (fft_exec env0 x0 c_alias plan_r2c CUFFT_FORWARD None dev0) = Some IllegalInPlaceTransform \<and>
   gpudata c_alias = gpudata c_alias \<and> fft_type plan_c2c \<in> {CUFFT_C2C, CUFFT_Z2Z} \<and>
   Plan_init engine0 (Scalar 4) Complex64 Complex64 = Inr plan_c2c \<and>
   fst (fft_exec env0 c_alias c_alias plan_c2c CUFFT_INVERSE None dev0) = None \<and>
   calls (snd (snd (fft_exec env0 c_alias c_alias plan_c2c CUFFT_INVERSE None dev0))) =
     [ExecCall cufftExecC2C 7 0 0 (Some CUFFT_INVERSE)]"
  using in_place_restriction [of x0 c_alias plan_r2c env0 CUFFT_FORWARD None dev0
      engine0 "Scalar 4" Float32 Complex64]
    in_place_restriction [of c_alias c_alias plan_c2c env0 CUFFT_INVERSE None dev0
      engine0 "Scalar 4" Complex64 Complex64]
  by (simp add: x0_def c_alias_def plan_r2c_def plan_c2c_def dev0_def engine0_def
      Plan_init_def determine_type_def set_up_plan_def request_def)

text \<open>
  Claim C3, as the code has it. When the in-place restriction is not violated (the device
  pointers differ, or the kind is C2C or Z2Z), a plan with a complex input dtype and a
  real output dtype executed forward raises the direction error, and so does a plan
  with a real input dtype and a complex output dtype executed inverse.
\<close>

theorem direction_restriction:
  "(in_dtype p \<in> set sctypes_complex \<and> out_dtype p \<in> set sctypes_float \<and>
    (gpudata x_gpu \<noteq> gpudata y_gpu \<or> fft_type p \<in> {CUFFT_C2C, CUFFT_Z2Z}) \<longrightarrow>
      fst (fft_exec e x_gpu y_gpu p CUFFT_FORWARD scale dev) = Some IllegalDirectionForKind) \<and>
   (in_dtype p \<in> set sctypes_float \<and> out_dtype p \<in> set sctypes_complex \<and>
    (gpudata x_gpu \<noteq> gpudata y_gpu \<or> fft_type p \<in> {CUFFT_C2C, CUFFT_Z2Z}) \<longrightarrow>
      fst (fft_exec e x_gpu y_gpu p CUFFT_INVERSE scale dev) = Some IllegalDirectionForKind)"
proof (intro conjI impI)
  assume a: "in_dtype p \<in> set sctypes_complex \<and> out_dtype p \<in> set sctypes_float \<and>
    (gpudata x_gpu \<noteq> gpudata y_gpu \<or> fft_type p \<in> {CUFFT_C2C, CUFFT_Z2Z})"
  then have "\<not> in_place_violation x_gpu y_gpu p"
    by (auto simp: in_place_violation_def)
  moreover from a have "forward_violation p CUFFT_FORWARD"
    by (simp add: forward_violation_def)
  ultimately show "fst (fft_exec e x_gpu y_gpu p CUFFT_FORWARD scale dev) = Some IllegalDirectionForKind"
    by (simp add: fft_exec_forward)
next
  assume a: "in_dtype p \<in> set sctypes_float \<and> out_dtype p \<in> set sctypes_complex \<and>
    (gpudata x_gpu \<noteq> gpudata y_gpu \<or> fft_type p \<in> {CUFFT_C2C, CUFFT_Z2Z})"
  then have "\<not> in_place_violation x_gpu y_gpu p"
    by (auto simp: in_place_violation_def)
  moreover from a have "inverse_violation p CUFFT_INVERSE"
    by (simp add: inverse_violation_def)
  ultimately show "fst (fft_exec e x_gpu y_gpu p CUFFT_INVERSE scale dev) = Some IllegalDirectionForKind"
    by (simp add: fft_exec_inverse)
qed

theorem direction_restriction_witness:
  "in_dtype plan_c2r \<in> set sctypes_complex \<and> out_dtype plan_c2r \<in> set sctypes_float \<and>
   gpudata y0 \<noteq> gpudata x0 \<and>
   fst (fft_exec env0 y0 x0 plan_c2r CUFFT_FORWARD None dev0) = Some IllegalDirectionForKind \<and>
   in_dtype plan_r2c \<in> set sctypes_float \<and> out_dtype plan_r2c \<in> set sctypes_complex \<and>
   gpudata x0 \<noteq> gpudata y0 \<and>
   fst (fft_exec env0 x0 y0 plan_r2c CUFFT_INVERSE None dev0) = Some IllegalDirectionForKind"
  using direction_restriction [of plan_c2r y0 x0 env0 None dev0]
    direction_restriction [of plan_r2c x0 y0 env0 None dev0]
  by (simp add: plan_c2r_def plan_r2c_def x0_def y0_def sctypes_complex_def sctypes_float_def)

text \<open>
  The claim as the spec states it fails: the constructor's plan for (complex64, float32),
  executed forward on a complex input and a real output that share a device pointer,
  raises the in-place error, not the direction error.
\<close>

theorem direction_restriction_counterexample:
  "Plan_init engine0 (Scalar 4) Complex64 Float32 = Inr plan_c2r \<and>
   in_dtype plan_c2r \<in> set sctypes_complex \<and> out_dtype plan_c2r \<in> set sctypes_float \<and>
   fst (fft_exec env0 y0 r_alias plan_c2r CUFFT_FORWARD None dev0) = Some IllegalInPlaceTransform \<and>
   fst (fft_exec env0 y0 r_alias plan_c2r CUFFT_FORWARD None dev0) \<noteq> Some IllegalDirectionForKind"
  by (simp add: Plan_init_def determine_type_def set_up_plan_def request_def engine0_def
      plan_c2r_def sctypes_complex_def sctypes_float_def fft_exec_def in_place_violation_def
      y0_def r_alias_def)

text \<open>
  Claim C4. The three rules are tried in the order in-place, forward, inverse, and the
  first one violated gives the error; when none is violated no error is raised. In
  particular a call that violates the in-place rule and a direction rule raises the
  in-place error.
\<close>

theorem validation_order:
  "(in_place_violation x_gpu y_gpu p \<longrightarrow>
      fst (fft_exec e x_gpu y_gpu p d scale dev) = Some IllegalInPlaceTransform) \<and>
   (\<not> in_place_violation x_gpu y_gpu p \<and> forward_violation p d \<longrightarrow>
      fst (fft_exec e x_gpu y_gpu p d scale dev) = Some IllegalDirectionForKind) \<and>
   (\<not> in_place_violation x_gpu y_gpu p \<and> \<not> forward_violation p d \<and> inverse_violation p d \<longrightarrow>
      fst (fft_exec e x_gpu y_gpu p d scale dev) = Some IllegalDirectionForKind) \<and>
   (\<not> in_place_violation x_gpu y_gpu p \<and> \<not> forward_violation p d \<and> \<not> inverse_violation p d \<longrightarrow>
      fst (fft_exec e x_gpu y_gpu p d scale dev) = None) \<and>
   (in_place_violation x_gpu y_gpu p \<and> (forward_violation p d \<or> inverse_violation p d) \<longrightarrow>
      fst (fft_exec e x_gpu y_gpu p d scale dev) = Some IllegalInPlaceTransform \<and>
      fst (fft_exec e x_gpu y_gpu p d scale dev) \<noteq> Some IllegalDirectionForKind)"
  by (simp add: fft_exec_def)

theorem validation_order_witness:
  "in_place_violation y0 r_alias plan_c2r \<and> forward_violation plan_c2r CUFFT_FORWARD \<and>
   fst (fft_exec env0 y0 r_alias plan_c2r CUFFT_FORWARD None dev0) = Some IllegalInPlaceTransform \<and>
   \<not> in_place_violation y0 x0 plan_c2r \<and>
   fst (fft_exec env0 y0 x0 plan_c2r CUFFT_FORWARD None dev0) = Some IllegalDirectionForKind \<and>
   \<not> in_place_violation x0 y0 plan_r2c \<and> \<not> forward_violation plan_r2c CUFFT_INVERSE \<and>
   inverse_violation plan_r2c CUFFT_INVERSE \<and>
   fst (fft_exec env0 x0 y0 plan_r2c CUFFT_INVERSE None dev0) = Some IllegalDirectionForKind \<and>
   \<not> forward_violation plan_r2c CUFFT_FORWARD \<and> \<not> inverse_violation plan_r2c CUFFT_FORWARD \<and>
   fst (fft_exec env0 x0 y0 plan_r2c CUFFT_FORWARD None dev0) = None"
  using validation_order [of y0 r_alias plan_c2r env0 CUFFT_FORWARD None dev0]
    validation_order [of y0 x0 plan_c2r env0 CUFFT_FORWARD None dev0]
    validation_order [of x0 y0 plan_r2c env0 CUFFT_INVERSE None dev0]
    validation_order [of x0 y0 plan_r2c env0 CUFFT_FORWARD None dev0]
  by (simp add: in_place_violation_def forward_violation_def inverse_violation_def
      plan_c2r_def plan_r2c_def x0_def y0_def r_alias_def sctypes_complex_def sctypes_float_def)

section \<open>The entry points\<close>

text \<open>
  Claim C5. \<open>fft\<close> runs \<open>_fft\<close> with the forward direction and, when asked to scale, the
  element count of the input array as scale, no scale otherwise; \<open>ifft\<close> runs it with the
  inverse direction and, when asked to scale, the element count of the output array.
\<close>

theorem entry_points:
  "fft e x_gpu y_gpu p scaled dev =
     fft_exec e x_gpu y_gpu p CUFFT_FORWARD
       (if scaled then Some (int (size_attr x_gpu)) else None) dev \<and>
   ifft e x_gpu y_gpu p scaled dev =
     fft_exec e x_gpu y_gpu p CUFFT_INVERSE
       (if scaled then Some (int (size_attr y_gpu)) else None) dev"
  by (simp add: fft_def ifft_def)

theorem entry_points_witness:
  "fft env0 x0 y0 plan_r2c True dev0 = fft_exec env0 x0 y0 plan_r2c CUFFT_FORWARD (Some 4) dev0 \<and>
   ifft env0 y0 x0 plan_c2r True dev0 = fft_exec env0 y0 x0 plan_c2r CUFFT_INVERSE (Some 4) dev0 \<and>
   fft env0 x0 y0 plan_r2c False dev0 = fft_exec env0 x0 y0 plan_r2c CUFFT_FORWARD None dev0 \<and>
   ifft env0 y0 x0 plan_c2r False dev0 = fft_exec env0 y0 x0 plan_c2r CUFFT_INVERSE None dev0"
  using entry_points [of env0 x0 y0 plan_r2c True dev0]
    entry_points [of env0 y0 x0 plan_c2r True dev0]
    entry_points [of env0 x0 y0 plan_r2c False dev0]
    entry_points [of env0 y0 x0 plan_c2r False dev0]
  by (simp add: x0_def y0_def)

section \<open>Scaling and the effect of a call on the device\<close>

lemma rescale_none: "rescale e y_gpu None dev = (y_gpu, dev)"
  by (simp add: rescale_def)

lemma rescale_some:
  "rescale e y_gpu (Some s) dev =
     (y_gpu\<lparr>gpudata := gpudata (fst (gpu_div e y_gpu (np_cast e (dtype y_gpu) s) (mem dev) (next_ptr dev)))\<rparr>,
      dev\<lparr>mem := fst (snd (gpu_div e y_gpu (np_cast e (dtype y_gpu) s) (mem dev) (next_ptr dev))),
          next_ptr := snd (snd (gpu_div e y_gpu (np_cast e (dtype y_gpu) s) (mem dev) (next_ptr dev)))\<rparr>)"
  by (simp add: rescale_def gpuarray_div_def)

lemma invoke_mem: "mem (invoke e c dev) = cufft_exec e c (mem dev)"
  by (simp add: invoke_def)

lemma invoke_next_ptr: "next_ptr (invoke e c dev) = next_ptr dev"
  by (simp add: invoke_def)

text \<open>
  Claim C6, as the code has it. When a scale is supplied and the call returns normally,
  the output array, as the primitive left it, is divided by the scale cast to the output
  array's dtype, by the division of the device-memory layer, and the output array's
  device pointer is rebound to the pointer of the array which that division returns;
  size and dtype of the output array stay, and device memory and the allocator are as
  the division leaves them, the scaling step writing nothing itself. So the output array
  still refers to its original memory exactly when the division returns the operand's
  pointer. When no scale is supplied, the output array and the device are left as the
  primitive left them.
\<close>

theorem scaling_step:
  "fst (fft_exec e x_gpu y_gpu p d scale dev) = None \<Longrightarrow>
   (case scale of
      None \<Rightarrow>
        snd (fft_exec e x_gpu y_gpu p d scale dev) =
          (y_gpu, invoke e (the_call x_gpu y_gpu p d) dev)
    | Some s \<Rightarrow>
        fst (snd (fft_exec e x_gpu y_gpu p d scale dev)) =
          y_gpu\<lparr>gpudata :=
            gpudata (fst (gpu_div e y_gpu (np_cast e (dtype y_gpu) s)
              (cufft_exec e (the_call x_gpu y_gpu p d) (mem dev)) (next_ptr dev)))\<rparr> \<and>
        mem (snd (snd (fft_exec e x_gpu y_gpu p d scale dev))) =
          fst (snd (gpu_div e y_gpu (np_cast e (dtype y_gpu) s)
            (cufft_exec e (the_call x_gpu y_gpu p d) (mem dev)) (next_ptr dev))) \<and>
        next_ptr (snd (snd (fft_exec e x_gpu y_gpu p d scale dev))) =
          snd (snd (gpu_div e y_gpu (np_cast e (dtype y_gpu) s)
            (cufft_exec e (the_call x_gpu y_gpu p d) (mem dev)) (next_ptr dev))) \<and>
        (gpudata (fst (snd (fft_exec e x_gpu y_gpu p d scale dev))) = gpudata y_gpu \<longleftrightarrow>
           gpudata (fst (gpu_div e y_gpu (np_cast e (dtype y_gpu) s)
             (cufft_exec e (the_call x_gpu y_gpu p d) (mem dev)) (next_ptr dev))) = gpudata y_gpu))"
proof -
  assume ok: "fst (fft_exec e x_gpu y_gpu p d scale dev) = None"
  then have r: "fft_exec e x_gpu y_gpu p d scale dev =
      (None, rescale e y_gpu scale (invoke e (the_call x_gpu y_gpu p d) dev))"
    by (simp add: fft_exec_def split: if_splits)
  show ?thesis
  proof (cases scale)
    case None
    with r show ?thesis by (simp add: rescale_none)
  next
    case (Some s)
    with r show ?thesis
      by (simp add: rescale_some invoke_mem invoke_next_ptr)
  qed
qed

theorem scaling_step_witness:
  "fst (fft_exec env0 x0 y0 plan_r2c CUFFT_FORWARD (Some 2) dev0) = None \<and>
   fst (snd (fft_exec env0 x0 y0 plan_r2c CUFFT_FORWARD (Some 2) dev0)) = y0\<lparr>gpudata := 2\<rparr> \<and>
   mem (snd (snd (fft_exec env0 x0 y0 plan_r2c CUFFT_FORWARD (Some 2) dev0))) 2 = [4, 2, 3] \<and>
   fst (fft_exec env1 x0 y0 plan_r2c CUFFT_FORWARD (Some 2) dev0) = None \<and>
   fst (snd (fft_exec env1 x0 y0 plan_r2c CUFFT_FORWARD (Some 2) dev0)) = y0 \<and>
   mem (snd (snd (fft_exec env1 x0 y0 plan_r2c CUFFT_FORWARD (Some 2) dev0))) 1 = [4, 2, 3] \<and>
   fst (fft_exec env0 x0 y0 plan_r2c CUFFT_FORWARD None dev0) = None \<and>
   fst (snd (fft_exec env0 x0 y0 plan_r2c CUFFT_FORWARD None dev0)) = y0 \<and>
   mem (snd (snd (fft_exec env0 x0 y0 plan_r2c CUFFT_FORWARD None dev0))) 1 = [8, 4, 6]"
proof -
  have ok: "fst (fft_exec e x0 y0 plan_r2c CUFFT_FORWARD s dev0) = None" for s and e :: "int env"
    by (simp add: fft_exec_def in_place_violation_def forward_violation_def
        inverse_violation_def x0_def y0_def plan_r2c_def sctypes_complex_def sctypes_float_def)
  have c: "the_call x0 y0 plan_r2c CUFFT_FORWARD = ExecCall cufftExecR2C 7 0 1 None"
    by (simp add: the_call_def plan_r2c_def x0_def y0_def)
  have m: "cufft_exec env0 k mm a = (if a = out_ptr k then [8, 4, 6] else mm a)"
    "cufft_exec env1 k mm a = (if a = out_ptr k then [8, 4, 6] else mm a)" for k mm a
    by (simp_all add: env0_def env1_def)
  have i: "mem (invoke env0 k dv) a = (if a = out_ptr k then [8, 4, 6] else mem dv a)" for k dv a
    by (simp add: invoke_def env0_def)
  have n: "next_ptr dev0 = 2"
    by (simp add: dev0_def)
  have g: "gpudata y0 = 1"
    by (simp add: y0_def)
  have q: "np_cast env0 t 2 = 2" "np_cast env1 t 2 = 2"
    "gpu_div env0 = alloc_div" "gpu_div env1 = inplace_div" for t
    by (simp_all add: env0_def env1_def)
  show ?thesis
    using scaling_step [OF ok [of env0 "Some 2"]] scaling_step [OF ok [of env1 "Some 2"]]
      scaling_step [OF ok [of env0 None]]
    by (simp add: ok c m i n g q alloc_div_def inplace_div_def)
qed

text \<open>
  The claim as the spec states it fails: with a division that is a binary operator
  leaving its operand alone, the output array no longer refers to its original buffer
  after a scaled forward transform, and that buffer was not divided: address 1 still
  holds the primitive's unscaled result \<open>[8, 4, 6]\<close>, as it does after the same call
  without a scale.
\<close>

theorem scaling_step_counterexample:
  "fst (fft_exec env0 x0 y0 plan_r2c CUFFT_FORWARD (Some 2) dev0) = None \<and>
   gpudata y0 = 1 \<and>
   gpudata (fst (snd (fft_exec env0 x0 y0 plan_r2c CUFFT_FORWARD (Some 2) dev0))) \<noteq> gpudata y0 \<and>
   mem (snd (snd (fft_exec env0 x0 y0 plan_r2c CUFFT_FORWARD None dev0))) (gpudata y0) = [8, 4, 6] \<and>
   mem (snd (snd (fft_exec env0 x0 y0 plan_r2c CUFFT_FORWARD (Some 2) dev0))) (gpudata y0) = [8, 4, 6] \<and>
   mem (snd (snd (fft_exec env0 x0 y0 plan_r2c CUFFT_FORWARD (Some 2) dev0))) (gpudata y0) \<noteq> [4, 2, 3]"
  by (simp add: fft_exec_def in_place_violation_def forward_violation_def inverse_violation_def
      x0_def y0_def plan_r2c_def the_call_def invoke_def rescale_def gpuarray_div_def
      env0_def dev0_def alloc_div_def sctypes_complex_def sctypes_float_def)

text \<open>
  Claim C8. A call of \<open>_fft\<close> ends in one of two ways. Either it raises the in-place or
  the direction error, and then no primitive has been invoked and the output array, the
  device memory and the allocator are as before the call; or it raises nothing, and then
  exactly one primitive call, the one for the plan and the two buffers, has been added
  to the calls made, and the output array and the device are what scaling leaves after
  that call.
\<close>

theorem no_partial_success:
  "((fst (fft_exec e x_gpu y_gpu p d scale dev) = Some IllegalInPlaceTransform \<or>
     fst (fft_exec e x_gpu y_gpu p d scale dev) = Some IllegalDirectionForKind) \<and>
    fst (snd (fft_exec e x_gpu y_gpu p d scale dev)) = y_gpu \<and>
    snd (snd (fft_exec e x_gpu y_gpu p d scale dev)) = dev \<and>
    calls (snd (snd (fft_exec e x_gpu y_gpu p d scale dev))) = calls dev \<and>
    mem (snd (snd (fft_exec e x_gpu y_gpu p d scale dev))) = mem dev) \<or>
   (fst (fft_exec e x_gpu y_gpu p d scale dev) = None \<and>
    \<not> in_place_violation x_gpu y_gpu p \<and> \<not> forward_violation p d \<and> \<not> inverse_violation p d \<and>
    calls (snd (snd (fft_exec e x_gpu y_gpu p d scale dev))) = calls dev @ [the_call x_gpu y_gpu p d] \<and>
    snd (fft_exec e x_gpu y_gpu p d scale dev) =
      rescale e y_gpu scale (invoke e (the_call x_gpu y_gpu p d) dev))"
proof (cases "in_place_violation x_gpu y_gpu p \<or> forward_violation p d \<or> inverse_violation p d")
  case True
  then show ?thesis
    by (auto simp: fft_exec_def)
next
  case False
  then have r: "fft_exec e x_gpu y_gpu p d scale dev =
      (None, rescale e y_gpu scale (invoke e (the_call x_gpu y_gpu p d) dev))"
    by (simp add: fft_exec_valid)
  from False show ?thesis
    by (simp add: r rescale_calls invoke_calls)
qed

theorem no_partial_success_witness:
  "fst (fft_exec env0 y0 r_alias plan_c2r CUFFT_INVERSE (Some 4) dev0) = Some IllegalInPlaceTransform \<and>
   snd (fft_exec env0 y0 r_alias plan_c2r CUFFT_INVERSE (Some 4) dev0) = (r_alias, dev0) \<and>
   fst (fft_exec env0 y0 x0 plan_c2r CUFFT_INVERSE (Some 4) dev0) = None \<and>
   calls (snd (snd (fft_exec env0 y0 x0 plan_c2r CUFFT_INVERSE (Some 4) dev0))) =
     [ExecCall cufftExecC2R 7 1 0 None]"
  using no_partial_success [of env0 y0 r_alias plan_c2r CUFFT_INVERSE "Some 4" dev0]
    no_partial_success [of env0 y0 x0 plan_c2r CUFFT_INVERSE "Some 4" dev0]
  by (simp add: in_place_violation_def forward_violation_def inverse_violation_def
      the_call_def plan_c2r_def x0_def y0_def r_alias_def dev0_def fft_exec_def
      sctypes_complex_def sctypes_float_def)

section \<open>Execution against a disposed plan\<close>

lemma invoke_released: "released (invoke e c dev) = released dev"
  by (simp add: invoke_def)

lemma rescale_released: "released (snd (rescale e y_gpu scale dev)) = released dev"
  by (cases scale) (simp_all add: rescale_def gpuarray_div_def)

lemma the_call_handle: "call_handle (the_call x_gpu y_gpu p d) = handle p"
  by (simp add: the_call_def)

text \<open>
  Claim C9, as the code has it. Disposing a plan destroys its engine handle and leaves
  the plan object as it was, the handle attribute included. \<open>_fft\<close> makes no liveness
  check: a call against the disposed plan raises what the same call against the live
  plan raises, and when it raises nothing it has invoked the primitive with the handle
  that was destroyed. Nothing in the code makes the call fail or impossible.
\<close>

theorem disposed_plan_execute:
  "fst (Plan_del p dev) = p \<and>
   released (snd (Plan_del p dev)) = released dev @ [handle p] \<and>
   fst (fft_exec e x_gpu y_gpu (fst (Plan_del p dev)) d scale (snd (Plan_del p dev))) =
     fst (fft_exec e x_gpu y_gpu p d scale dev) \<and>
   (fst (fft_exec e x_gpu y_gpu p d scale dev) = None \<longrightarrow>
      calls (snd (snd (fft_exec e x_gpu y_gpu (fst (Plan_del p dev)) d scale (snd (Plan_del p dev))))) =
        calls dev @ [the_call x_gpu y_gpu p d] \<and>
      call_handle (the_call x_gpu y_gpu p d) = handle p \<and>
      handle p \<in> set (released
        (snd (snd (fft_exec e x_gpu y_gpu (fst (Plan_del p dev)) d scale (snd (Plan_del p dev)))))))"
proof (intro conjI impI)
  show "fst (Plan_del p dev) = p"
    by (simp add: Plan_del_def)
  show "released (snd (Plan_del p dev)) = released dev @ [handle p]"
    by (simp add: Plan_del_def)
  show "fst (fft_exec e x_gpu y_gpu (fst (Plan_del p dev)) d scale (snd (Plan_del p dev))) =
      fst (fft_exec e x_gpu y_gpu p d scale dev)"
    by (simp add: Plan_del_def fft_exec_def)
next
  assume "fst (fft_exec e x_gpu y_gpu p d scale dev) = None"
  then have v: "\<not> in_place_violation x_gpu y_gpu p" "\<not> forward_violation p d"
    "\<not> inverse_violation p d"
    by (simp_all add: fft_exec_def split: if_splits)
  have r: "fft_exec e x_gpu y_gpu (fst (Plan_del p dev)) d scale (snd (Plan_del p dev)) =
      (None, rescale e y_gpu scale
         (invoke e (the_call x_gpu y_gpu p d) (dev\<lparr>released := released dev @ [handle p]\<rparr>)))"
    using v by (simp add: Plan_del_def fft_exec_valid)
  show "calls (snd (snd (fft_exec e x_gpu y_gpu (fst (Plan_del p dev)) d scale (snd (Plan_del p dev))))) =
      calls dev @ [the_call x_gpu y_gpu p d]"
    by (simp add: r rescale_calls invoke_calls)
  show "call_handle (the_call x_gpu y_gpu p d) = handle p"
    by (rule the_call_handle)
  show "handle p \<in> set (released
      (snd (snd (fft_exec e x_gpu y_gpu (fst (Plan_del p dev)) d scale (snd (Plan_del p dev))))))"
    by (simp add: r rescale_released invoke_released)
qed

theorem disposed_plan_execute_witness:
  "fst (fft_exec env0 c_alias y0 plan_c2c CUFFT_FORWARD None dev0) = None \<and>
   fst (fft_exec env0 c_alias y0 (fst (Plan_del plan_c2c dev0)) CUFFT_FORWARD None
     (snd (Plan_del plan_c2c dev0))) = None \<and>
   calls (snd (snd (fft_exec env0 c_alias y0 (fst (Plan_del plan_c2c dev0)) CUFFT_FORWARD None
     (snd (Plan_del plan_c2c dev0))))) = [ExecCall cufftExecC2C 7 0 1 (Some CUFFT_FORWARD)] \<and>
   7 \<in> set (released (snd (snd (fft_exec env0 c_alias y0 (fst (Plan_del plan_c2c dev0))
     CUFFT_FORWARD None (snd (Plan_del plan_c2c dev0))))))"
proof -
  have ok: "fst (fft_exec env0 c_alias y0 plan_c2c CUFFT_FORWARD None dev0) = None"
    by (simp add: fft_exec_def in_place_violation_def forward_violation_def
        inverse_violation_def c_alias_def y0_def plan_c2c_def sctypes_complex_def
        sctypes_float_def)
  have c: "the_call c_alias y0 plan_c2c CUFFT_FORWARD =
      ExecCall cufftExecC2C 7 0 1 (Some CUFFT_FORWARD)"
    by (simp add: the_call_def plan_c2c_def c_alias_def y0_def)
  have h: "handle plan_c2c = 7" "calls dev0 = []"
    by (simp_all add: plan_c2c_def dev0_def)
  show ?thesis
    using disposed_plan_execute [of plan_c2c dev0 env0 c_alias y0 CUFFT_FORWARD None]
    by (simp add: ok c h Plan_del_def)
qed

text \<open>
  The claim as the spec states it fails: the constructor's plan for (complex64,
  complex64) is disposed, its handle 7 is destroyed, and a forward call against it
  raises nothing and invokes \<open>cufftExecC2C\<close> with handle 7.
\<close>

theorem disposed_plan_execute_counterexample:
  "Plan_init engine0 (Scalar 4) Complex64 Complex64 = Inr plan_c2c \<and>
   released (snd (Plan_del plan_c2c dev0)) = [7] \<and>
   handle (fst (Plan_del plan_c2c dev0)) = 7 \<and>
   fst (fft_exec env0 c_alias y0 (fst (Plan_del plan_c2c dev0)) CUFFT_FORWARD None
     (snd (Plan_del plan_c2c dev0))) = None \<and>
   calls (snd (snd (fft_exec env0 c_alias y0 (fst (Plan_del plan_c2c dev0)) CUFFT_FORWARD None
     (snd (Plan_del plan_c2c dev0))))) = [ExecCall cufftExecC2C 7 0 1 (Some CUFFT_FORWARD)] \<and>
   mem (snd (snd (fft_exec env0 c_alias y0 (fst (Plan_del plan_c2c dev0)) CUFFT_FORWARD None
     (snd (Plan_del plan_c2c dev0))))) 1 = [8, 4, 6]"
  by (simp add: Plan_init_def determine_type_def set_up_plan_def request_def engine0_def
      Plan_del_def fft_exec_def in_place_violation_def forward_violation_def
      inverse_violation_def the_call_def invoke_def rescale_def plan_c2c_def c_alias_def
      y0_def dev0_def env0_def sctypes_complex_def sctypes_float_def)

end
